theory Spec2Isabelle
  imports Main
begin

section \<open>Python values, errors and text\<close>

text \<open>
  The values that \<^verbatim>\<open>json.loads\<close> and \<^verbatim>\<open>yaml.safe_load\<close> hand to the program. A dict
  is the list of its items in insertion order; lookup takes the first item with the key.
  A float is kept as its \<^verbatim>\<open>repr\<close> text, since the program only passes floats through.
  Text is a \<^typ>\<open>string\<close>, one \<^typ>\<open>char\<close> for one code point below 256.
\<close>

datatype pyval =
    PNone
  | PBool bool
  | PInt int
  | PFloat string
  | PStr string
  | PList "pyval list"
  | PDict "(string \<times> pyval) list"

text \<open>
  Exceptions, by class, with the text \<^verbatim>\<open>str(e)\<close> gives. \<open>ValueError\<close> and
  \<open>RuntimeError\<close> are the two classes the program raises itself; the others come from
  the interpreter and the libraries (their wording is CPython's).
\<close>

datatype error =
    ValueError string
  | RuntimeError string
  | TypeError string
  | KeyError string
  | AttributeError string
  | FileNotFoundError string
  | UnicodeDecodeError string
  | OSError string
  | YAMLError string

fun str_of_error :: "error \<Rightarrow> string" where
  "str_of_error (ValueError m) = m"
| "str_of_error (RuntimeError m) = m"
| "str_of_error (TypeError m) = m"
| "str_of_error (KeyError m) = m"
| "str_of_error (AttributeError m) = m"
| "str_of_error (FileNotFoundError m) = m"
| "str_of_error (UnicodeDecodeError m) = m"
| "str_of_error (OSError m) = m"
| "str_of_error (YAMLError m) = m"

text \<open>Truth value of an object, as \<^verbatim>\<open>not x\<close> and \<^verbatim>\<open>x if y else z\<close> test it.\<close>

fun truthy :: "pyval \<Rightarrow> bool" where
  "truthy PNone = False"
| "truthy (PBool b) = b"
| "truthy (PInt i) = (i \<noteq> 0)"
| "truthy (PFloat r) = (r \<noteq> ''0.0'' \<and> r \<noteq> ''-0.0'')"
| "truthy (PStr s) = (s \<noteq> [])"
| "truthy (PList xs) = (xs \<noteq> [])"
| "truthy (PDict kvs) = (kvs \<noteq> [])"

fun type_name :: "pyval \<Rightarrow> string" where
  "type_name PNone = ''NoneType''"
| "type_name (PBool b) = ''bool''"
| "type_name (PInt i) = ''int''"
| "type_name (PFloat r) = ''float''"
| "type_name (PStr s) = ''str''"
| "type_name (PList xs) = ''list''"
| "type_name (PDict kvs) = ''dict''"

text \<open>\<^verbatim>\<open>str.isspace\<close> on the code points below 256: what \<^verbatim>\<open>str.strip()\<close> removes.\<close>

definition is_space :: "char \<Rightarrow> bool" where
  "is_space c = (c \<in> set [CHR 0x09, CHR 0x0A, CHR 0x0B, CHR 0x0C, CHR 0x0D,
                           CHR 0x1C, CHR 0x1D, CHR 0x1E, CHR 0x1F, CHR 0x20,
                           CHR 0x85, CHR 0xA0])"

definition strip :: "string \<Rightarrow> string" where
  "strip s = rev (dropWhile is_space (rev (dropWhile is_space s)))"

definition startswith :: "string \<Rightarrow> char \<Rightarrow> bool" where
  "startswith s c = (case s of [] \<Rightarrow> False | x # xs \<Rightarrow> x = c)"

definition endswith :: "string \<Rightarrow> char \<Rightarrow> bool" where
  "endswith s c = startswith (rev s) c"

text \<open>
  \<^verbatim>\<open>s.split(c)\<close> for a one-character separator: empty pieces are kept. A character
  other than the separator joins the first piece of the rest (there always is one).
\<close>

fun split :: "char \<Rightarrow> string \<Rightarrow> string list" where
  "split c [] = [[]]"
| "split c (x # xs) =
     (if x = c then [] # split c xs
      else (case split c xs of
              piece # pieces \<Rightarrow> (x # piece) # pieces
            | [] \<Rightarrow> [[x]]))"

text \<open>\<^verbatim>\<open>sub in s\<close> on two strings.\<close>

fun is_substring :: "string \<Rightarrow> string \<Rightarrow> bool" where
  "is_substring sub [] = (sub = [])"
| "is_substring sub (x # xs) = (take (length sub) (x # xs) = sub \<or> is_substring sub xs)"

text \<open>
  \<^verbatim>\<open>key in obj\<close> for a string key: membership among the keys of a dict, among the
  elements of a list, as a substring of a string; any other object is no container.
\<close>

fun py_in :: "string \<Rightarrow> pyval \<Rightarrow> error + bool" where
  "py_in k (PDict kvs) = Inr (k \<in> set (map fst kvs))"
| "py_in k (PList xs) = Inr (PStr k \<in> set xs)"
| "py_in k (PStr s) = Inr (is_substring k s)"
| "py_in k v = Inl (TypeError (''argument of type '' @ [CHR 0x27] @ type_name v @ [CHR 0x27]
                                 @ '' is not iterable''))"

section \<open>The output scraper\<close>

text \<open>
  \<^verbatim>\<open>MCPBackend._is_complete_json\<close>. \<^verbatim>\<open>json.loads\<close> is a parameter \<open>loads\<close>: the parsed
  value, or \<open>None\<close> where it raises \<^verbatim>\<open>JSONDecodeError\<close>.
\<close>

definition is_complete_json :: "(string \<Rightarrow> pyval option) \<Rightarrow> string \<Rightarrow> bool" where
  "is_complete_json loads text = (case loads text of Some v \<Rightarrow> True | None \<Rightarrow> False)"

text \<open>
  The \<^verbatim>\<open>for line in lines\<close> loop of \<^verbatim>\<open>MCPBackend._extract_json_from_output\<close>, with
  its two variables \<open>in_json\<close> and \<open>json_lines\<close>. The result is \<open>Inr (Some r)\<close> for
  \<^verbatim>\<open>return result\<close> inside the loop, \<open>Inr None\<close> when the loop runs to its end, and
  \<open>Inl e\<close> for an exception that leaves the loop (only the membership tests can raise
  one that is not caught).
\<close>

fun scan_lines ::
  "(string \<Rightarrow> pyval option) \<Rightarrow> string \<Rightarrow> bool \<Rightarrow> string list \<Rightarrow> string list
     \<Rightarrow> error + pyval option" where
  "scan_lines loads request_type in_json json_lines [] = Inr None"
| "scan_lines loads request_type in_json json_lines (line # lines) =
     (if startswith (strip line) (CHR ''{'') then
        scan_lines loads request_type True [line] lines
      else if in_json then
        (let json_lines' = json_lines @ [line] in
         if endswith (strip line) (CHR ''}'') \<and> is_complete_json loads (concat json_lines') then
           (case loads (concat json_lines') of
              None \<Rightarrow> scan_lines loads request_type in_json json_lines' lines
            | Some result \<Rightarrow>
                (if request_type = ''tools/list'' then
                   (case py_in ''tools'' result of
                      Inl e \<Rightarrow> Inl e
                    | Inr True \<Rightarrow> Inr (Some result)
                    | Inr False \<Rightarrow> scan_lines loads request_type False [] lines)
                 else if request_type = ''tools/call'' then
                   (case py_in ''success'' result of
                      Inl e \<Rightarrow> Inl e
                    | Inr True \<Rightarrow> Inr (Some result)
                    | Inr False \<Rightarrow>
                        (case py_in ''error'' result of
                           Inl e \<Rightarrow> Inl e
                         | Inr True \<Rightarrow> Inr (Some result)
                         | Inr False \<Rightarrow> scan_lines loads request_type False [] lines))
                 else scan_lines loads request_type False [] lines))
         else scan_lines loads request_type in_json json_lines' lines)
      else scan_lines loads request_type in_json json_lines lines)"

definition fallback_tools :: pyval where
  "fallback_tools = PDict [(''tools'', PList [
     PDict [(''name'', PStr ''expr_predictor_obj_func''),
            (''description'', PStr ''Compute objective function value for ExprPredictor with given parameters'')],
     PDict [(''name'', PStr ''expr_par_get_free_pars''),
            (''description'', PStr ''Extract free parameters from ExprPar object'')],
     PDict [(''name'', PStr ''expr_predictor_train''),
            (''description'', PStr ''Train ExprPredictor model with given data'')],
     PDict [(''name'', PStr ''expr_predictor_predict''),
            (''description'', PStr ''Predict expression values using trained ExprPredictor'')],
     PDict [(''name'', PStr ''expr_par_load''),
            (''description'', PStr ''Load ExprPar parameters from file'')],
     PDict [(''name'', PStr ''expr_func_predict_expr''),
            (''description'', PStr ''Predict expression using ExprFunc'')]])]"

definition parse_failure :: pyval where
  "parse_failure = PDict [(''success'', PBool False),
                          (''error'', PStr ''Could not parse backend response'')]"

definition extract_json_from_output ::
  "(string \<Rightarrow> pyval option) \<Rightarrow> string \<Rightarrow> string \<Rightarrow> error + pyval" where
  "extract_json_from_output loads output request_type =
     (case scan_lines loads request_type False [] (split (CHR 0x0A) output) of
        Inl e \<Rightarrow> Inl e
      | Inr (Some result) \<Rightarrow> Inr result
      | Inr None \<Rightarrow>
          (if request_type = ''tools/list'' then Inr fallback_tools else Inr parse_failure))"

section \<open>Configuration\<close>

text \<open>Sequencing of steps that may raise: the first exception ends the run.\<close>

definition ebind :: "error + 'a \<Rightarrow> ('a \<Rightarrow> error + 'b) \<Rightarrow> error + 'b" where
  "ebind m f = (case m of Inl e \<Rightarrow> Inl e | Inr x \<Rightarrow> f x)"

text \<open>\<^verbatim>\<open>MCPConfig._default_config\<close>.\<close>

definition default_config :: pyval where
  "default_config = PDict [
     (''server'', PDict [(''host'', PStr ''0.0.0.0''), (''port'', PInt 8080), (''debug'', PBool False)]),
     (''mcp'', PDict [(''executable_path'', PStr ''./mcp_demo''), (''working_directory'', PStr ''.''),
                      (''timeout'', PInt 30)]),
     (''logging'', PDict [(''level'', PStr ''INFO'')]),
     (''tools'', PDict [(''discovery_enabled'', PBool True)])]"

text \<open>
  \<^verbatim>\<open>MCPConfig._load_config\<close>. Its argument is what the body of the \<^verbatim>\<open>try\<close> does for the
  given path: \<open>Inl e\<close> when \<^verbatim>\<open>open\<close> or \<^verbatim>\<open>yaml.safe_load\<close> raises \<open>e\<close>
  (\<open>FileNotFoundError\<close> for a missing file), \<open>Inr v\<close> when the file parses to \<open>v\<close>.
\<close>

fun load_config :: "error + pyval \<Rightarrow> pyval" where
  "load_config (Inr v) = v"
| "load_config (Inl (FileNotFoundError m)) = default_config"
| "load_config (Inl e) = default_config"

text \<open>
  \<^verbatim>\<open>obj[key]\<close> and \<^verbatim>\<open>obj[key] = value\<close> for a string key. The key is shown in a
  \<open>KeyError\<close> between quotes, as \<^verbatim>\<open>repr\<close> prints the two keys used here.
\<close>

fun dict_set :: "string \<Rightarrow> pyval \<Rightarrow> (string \<times> pyval) list \<Rightarrow> (string \<times> pyval) list" where
  "dict_set k v [] = [(k, v)]"
| "dict_set k v ((k', v') # kvs) =
     (if k' = k then (k, v) # kvs else (k', v') # dict_set k v kvs)"

fun getitem :: "pyval \<Rightarrow> string \<Rightarrow> error + pyval" where
  "getitem (PDict kvs) k =
     (case map_of kvs k of
        Some v \<Rightarrow> Inr v
      | None \<Rightarrow> Inl (KeyError ([CHR 0x27] @ k @ [CHR 0x27])))"
| "getitem (PList xs) k = Inl (TypeError ''list indices must be integers or slices, not str'')"
| "getitem (PStr s) k = Inl (TypeError ''string indices must be integers'')"
| "getitem v k =
     Inl (TypeError ([CHR 0x27] @ type_name v @ [CHR 0x27] @ '' object is not subscriptable''))"

fun setitem :: "pyval \<Rightarrow> string \<Rightarrow> pyval \<Rightarrow> error + pyval" where
  "setitem (PDict kvs) k v = Inr (PDict (dict_set k v kvs))"
| "setitem (PList xs) k v = Inl (TypeError ''list indices must be integers or slices, not str'')"
| "setitem x k v =
     Inl (TypeError ([CHR 0x27] @ type_name x @ [CHR 0x27]
                       @ '' object does not support item assignment''))"

text \<open>
  \<^verbatim>\<open>self.config[section][key] = value\<close>: the inner dict is changed in place, which the
  outer dict shows under \<open>section\<close>. (Sections are taken to be distinct objects.)
\<close>

definition set_nested :: "pyval \<Rightarrow> string \<Rightarrow> string \<Rightarrow> pyval \<Rightarrow> error + pyval" where
  "set_nested cfg section key v =
     ebind (getitem cfg section) (\<lambda>inner.
     ebind (setitem inner key v) (\<lambda>inner'.
     setitem cfg section inner'))"

text \<open>
  \<^verbatim>\<open>MCPConfig._apply_env_overrides\<close>. \<open>environ\<close> is \<^verbatim>\<open>os.environ\<close>; \<open>int_of_str\<close> is
  \<^verbatim>\<open>int\<close> on a string: the integer, or the \<open>ValueError\<close> it raises. The right-hand side of
  each assignment is evaluated before the section is looked up.
\<close>

definition apply_env_overrides ::
  "(string \<Rightarrow> error + int) \<Rightarrow> (string \<rightharpoonup> string) \<Rightarrow> pyval \<Rightarrow> error + pyval" where
  "apply_env_overrides int_of_str environ cfg =
     ebind (case environ ''MCP_SERVER_HOST'' of
              None \<Rightarrow> Inr cfg
            | Some h \<Rightarrow> set_nested cfg ''server'' ''host'' (PStr h)) (\<lambda>c1.
     ebind (case environ ''MCP_SERVER_PORT'' of
              None \<Rightarrow> Inr c1
            | Some p \<Rightarrow> ebind (int_of_str p) (\<lambda>n. set_nested c1 ''server'' ''port'' (PInt n))) (\<lambda>c2.
     ebind (case environ ''MCP_EXECUTABLE_PATH'' of
              None \<Rightarrow> Inr c2
            | Some x \<Rightarrow> set_nested c2 ''mcp'' ''executable_path'' (PStr x)) (\<lambda>c3.
     (case environ ''MCP_WORKING_DIR'' of
        None \<Rightarrow> Inr c3
      | Some w \<Rightarrow> set_nested c3 ''mcp'' ''working_directory'' (PStr w)))))"

text \<open>\<^verbatim>\<open>MCPConfig.__init__\<close>: the object is its \<open>config\<close> attribute.\<close>

definition MCPConfig_init ::
  "(string \<Rightarrow> error + int) \<Rightarrow> error + pyval \<Rightarrow> (string \<rightharpoonup> string) \<Rightarrow> error + pyval" where
  "MCPConfig_init int_of_str file environ =
     apply_env_overrides int_of_str environ (load_config file)"

text \<open>\<^verbatim>\<open>MCPConfig.get\<close>: the loop over the pieces of the dotted key.\<close>

fun get_keys :: "pyval \<Rightarrow> string list \<Rightarrow> pyval \<Rightarrow> pyval" where
  "get_keys v [] d = v"
| "get_keys (PDict kvs) (k # ks) d =
     (case map_of kvs k of Some v' \<Rightarrow> get_keys v' ks d | None \<Rightarrow> d)"
| "get_keys v (k # ks) d = d"

definition MCPConfig_get :: "pyval \<Rightarrow> string \<Rightarrow> pyval \<Rightarrow> pyval" where
  "MCPConfig_get cfg key d = get_keys cfg (split (CHR ''.'') key) d"

section \<open>The backend invoker\<close>

text \<open>
  What the program takes from its libraries and from the file system, as parameters:
  \<^verbatim>\<open>json.loads\<close>, and the operations of \<^verbatim>\<open>pathlib.Path\<close> on a type \<open>'p\<close> of paths
  (\<open>Path\<close> the constructor, \<open>path_join\<close> the operator \<^verbatim>\<open>/\<close>, \<open>path_str\<close> the text
  \<^verbatim>\<open>str\<close> gives).
\<close>

record 'p pylib =
  json_loads :: "string \<Rightarrow> pyval option"
  Path :: "string \<Rightarrow> 'p"
  path_resolve :: "'p \<Rightarrow> 'p"
  path_is_absolute :: "'p \<Rightarrow> bool"
  path_join :: "'p \<Rightarrow> string \<Rightarrow> 'p"
  path_exists :: "'p \<Rightarrow> bool"
  path_str :: "'p \<Rightarrow> string"

record 'p MCPBackend =
  config :: pyval
  executable_path :: 'p
  working_directory :: 'p
  timeout :: pyval

text \<open>\<^verbatim>\<open>Path(x)\<close> accepts a string; for another value of a configuration it raises.\<close>

definition path_type_error :: "pyval \<Rightarrow> error" where
  "path_type_error v =
     TypeError (''expected str, bytes or os.PathLike object, not '' @ type_name v)"

text \<open>\<^verbatim>\<open>MCPBackend.__init__\<close>.\<close>

definition MCPBackend_init :: "'p pylib \<Rightarrow> pyval \<Rightarrow> error + 'p MCPBackend" where
  "MCPBackend_init L cfg =
     (let executable_path = MCPConfig_get cfg ''mcp.executable_path'' (PStr ''./mcp_demo'');
          working_dir = MCPConfig_get cfg ''mcp.working_directory'' (PStr ''.'')
      in case working_dir of
           PStr wd \<Rightarrow>
             (let working_directory = path_resolve L (Path L wd) in
              case executable_path of
                PStr exe \<Rightarrow>
                  (let p = (if path_is_absolute L (Path L exe) then Path L exe
                            else path_join L working_directory exe);
                       t = MCPConfig_get cfg ''mcp.timeout'' (PInt 30)
                   in if \<not> path_exists L p then
                        Inl (RuntimeError (''MCP executable not found: '' @ path_str L p))
                      else
                        Inr \<lparr>config = cfg, executable_path = p,
                             working_directory = working_directory, timeout = t\<rparr>)
              | v \<Rightarrow> Inl (path_type_error v))
         | v \<Rightarrow> Inl (path_type_error v))"

text \<open>
  What the program does to the outside world, in order: \<open>Spawn\<close> is
  \<^verbatim>\<open>asyncio.create_subprocess_exec\<close> with the program, the arguments after it, \<open>cwd\<close>,
  and whether \<open>stdout\<close> and \<open>stderr\<close> are \<^verbatim>\<open>subprocess.PIPE\<close>; \<open>WaitFor t\<close> is
  \<^verbatim>\<open>asyncio.wait_for(process.communicate(), timeout=t)\<close>; \<open>Kill\<close> is \<^verbatim>\<open>process.kill()\<close>.
\<close>

datatype 'p effect =
    Spawn string "string list" 'p bool bool
  | WaitFor pyval
  | Kill

text \<open>
  A captured stream: the bytes that encode a text, or bytes that \<^verbatim>\<open>decode()\<close> rejects
  (with the message of its \<open>UnicodeDecodeError\<close>); the latter are never empty.
\<close>

datatype captured = Text string | Undecodable string

fun decode :: "captured \<Rightarrow> error + string" where
  "decode (Text s) = Inr s"
| "decode (Undecodable m) = Inl (UnicodeDecodeError m)"

fun nonempty :: "captured \<Rightarrow> bool" where
  "nonempty (Text s) = (s \<noteq> [])"
| "nonempty (Undecodable m) = True"

text \<open>
  What the spawned process does, as the program sees it: the spawn raises; the wait raises
  something other than a timeout; the wait times out; or the process ends with a return
  code and the two captured streams.
\<close>

datatype proc_outcome =
    SpawnError error
  | WaitError error
  | TimedOut
  | Completed int captured captured

text \<open>\<^verbatim>\<open>MCPBackend._get_tools_list\<close>.\<close>

definition MCPBackend_get_tools_list ::
  "'p pylib \<Rightarrow> 'p MCPBackend \<Rightarrow> proc_outcome \<Rightarrow> 'p effect list \<times> (error + pyval)" where
  "MCPBackend_get_tools_list L self oc =
     (let spawn = Spawn (path_str L (executable_path self)) [] (working_directory self) True True;
          wait = WaitFor (timeout self)
      in case oc of
           SpawnError e \<Rightarrow> ([spawn], Inl e)
         | WaitError e \<Rightarrow> ([spawn, wait], Inl e)
         | TimedOut \<Rightarrow> ([spawn, wait, Kill], Inl (RuntimeError ''MCP backend timeout''))
         | Completed returncode stdout stderr \<Rightarrow>
             ([spawn, wait],
              if returncode \<noteq> 0 then
                ebind (if nonempty stderr then decode stderr else Inr ''Unknown error'')
                  (\<lambda>error_msg. Inl (RuntimeError (''MCP backend failed: '' @ error_msg)))
              else
                ebind (decode stdout)
                  (\<lambda>output. extract_json_from_output (json_loads L) output ''tools/list'')))"

text \<open>The table \<open>schemas\<close> of \<^verbatim>\<open>MCPBackend._get_tool_schema\<close>.\<close>

definition property :: "string \<Rightarrow> string \<Rightarrow> string \<Rightarrow> string \<times> pyval" where
  "property name ty descr = (name, PDict [(''type'', PStr ty), (''description'', PStr descr)])"

definition tool_schema :: "string \<Rightarrow> string \<Rightarrow> (string \<times> pyval) list \<Rightarrow> string list \<Rightarrow> string \<times> pyval" where
  "tool_schema name descr props req =
     (name, PDict [(''name'', PStr name), (''description'', PStr descr),
                   (''inputSchema'', PDict [(''type'', PStr ''object''),
                                            (''properties'', PDict props),
                                            (''required'', PList (map PStr req))])])"

definition schemas :: "(string \<times> pyval) list" where
  "schemas = [
     tool_schema ''expr_predictor_obj_func''
       ''Compute objective function value for ExprPredictor with given parameters''
       [property ''parameters'' ''object'' ''ExprPar parameters object'']
       [''parameters''],
     tool_schema ''expr_par_get_free_pars''
       ''Extract free parameters from ExprPar object''
       [property ''parameters'' ''object'' ''ExprPar parameters object'',
        property ''coopMat'' ''object'' ''Cooperativity matrix'',
        property ''actIndicators'' ''array'' ''Activator indicators'',
        property ''repIndicators'' ''array'' ''Repressor indicators'']
       [''parameters'', ''coopMat'', ''actIndicators'', ''repIndicators''],
     tool_schema ''expr_predictor_train''
       ''Train ExprPredictor model with given data''
       [property ''initialParameters'' ''object'' ''Initial ExprPar parameters'',
        property ''trainingData'' ''object'' ''Training dataset'',
        property ''options'' ''object'' ''Training options'']
       [''initialParameters'', ''trainingData''],
     tool_schema ''expr_predictor_predict''
       ''Predict expression values using trained ExprPredictor''
       [property ''parameters'' ''object'' ''Trained ExprPar parameters'',
        property ''sequences'' ''array'' ''Input sequences for prediction'',
        property ''conditions'' ''array'' ''Experimental conditions'']
       [''parameters'', ''sequences''],
     tool_schema ''expr_par_load''
       ''Load ExprPar parameters from file''
       [property ''filename'' ''string'' ''Path to parameter file'',
        property ''coopMat'' ''object'' ''Cooperativity matrix'',
        property ''repIndicators'' ''array'' ''Repressor indicators'']
       [''filename'', ''coopMat'', ''repIndicators''],
     tool_schema ''expr_func_predict_expr''
       ''Predict expression using ExprFunc''
       [property ''sites'' ''array'' ''Binding sites (SiteVec)'',
        property ''length'' ''integer'' ''Sequence length'',
        property ''factorConcentrations'' ''array'' ''TF concentration values'']
       [''sites'', ''length'', ''factorConcentrations'']]"

text \<open>The decimal text of an integer, as an f-string prints it.\<close>

fun digits :: "nat \<Rightarrow> string" where
  "digits n =
     (if n < 10 then [char_of (48 + n)]
      else digits (n div 10) @ [char_of (48 + n mod 10)])"

definition str_of_int :: "int \<Rightarrow> string" where
  "str_of_int i = (if i < 0 then CHR ''-'' # digits (nat (- i)) else digits (nat i))"

text \<open>
  \<^verbatim>\<open>MCPBackend._get_tool_schema\<close>. The name is whatever the caller found under
  \<open>name\<close>: a list or a dict cannot be hashed for the lookup in the table, any other
  object that is no string is not in it.
\<close>

definition MCPBackend_get_tool_schema :: "pyval \<Rightarrow> error + pyval" where
  "MCPBackend_get_tool_schema tool_name =
     (if \<not> truthy tool_name then Inl (ValueError ''Tool name is required'')
      else case tool_name of
             PStr s \<Rightarrow>
               (case map_of schemas s of
                  None \<Rightarrow> Inl (ValueError (''Unknown tool: '' @ s))
                | Some sch \<Rightarrow> Inr sch)
           | PList xs \<Rightarrow> Inl (TypeError (''unhashable type: '' @ [CHR 0x27] @ ''list'' @ [CHR 0x27]))
           | PDict kvs \<Rightarrow> Inl (TypeError (''unhashable type: '' @ [CHR 0x27] @ ''dict'' @ [CHR 0x27]))
           | PInt i \<Rightarrow> Inl (ValueError (''Unknown tool: '' @ str_of_int i))
           | PBool b \<Rightarrow> Inl (ValueError (''Unknown tool: '' @ (if b then ''True'' else ''False'')))
           | PFloat r \<Rightarrow> Inl (ValueError (''Unknown tool: '' @ r))
           | PNone \<Rightarrow> Inl (ValueError ''Unknown tool: None''))"

text \<open>\<^verbatim>\<open>MCPBackend._execute_tool\<close>.\<close>

definition MCPBackend_execute_tool ::
  "'p pylib \<Rightarrow> 'p MCPBackend \<Rightarrow> pyval \<Rightarrow> pyval \<Rightarrow> proc_outcome
     \<Rightarrow> 'p effect list \<times> (error + pyval)" where
  "MCPBackend_execute_tool L self tool_name arguments oc =
     (if \<not> truthy tool_name then ([], Inl (ValueError ''Tool name is required''))
      else
        (let spawn = Spawn (path_str L (executable_path self)) [] (working_directory self) True True;
             wait = WaitFor (timeout self)
         in case oc of
              SpawnError e \<Rightarrow> ([spawn], Inl e)
            | WaitError e \<Rightarrow> ([spawn, wait], Inl e)
            | TimedOut \<Rightarrow> ([spawn, wait, Kill], Inl (RuntimeError ''MCP backend timeout''))
            | Completed returncode stdout stderr \<Rightarrow>
                ([spawn, wait],
                 if returncode \<noteq> 0 then
                   ebind (if nonempty stderr then decode stderr else Inr ''Unknown error'')
                     (\<lambda>error_msg. Inl (RuntimeError (''MCP backend failed: '' @ error_msg)))
                 else
                   ebind (decode stdout)
                     (\<lambda>output. extract_json_from_output (json_loads L) output ''tools/call''))))"

text \<open>
  \<^verbatim>\<open>MCPBackend.call_mcp_tool\<close>: first the body of its \<^verbatim>\<open>try\<close>, then the whole method
  with its \<^verbatim>\<open>except Exception\<close>. \<open>params\<close> is \<open>None\<close> or the items of a dict.
\<close>

definition dict_get :: "(string \<times> pyval) list \<Rightarrow> string \<Rightarrow> pyval \<Rightarrow> pyval" where
  "dict_get kvs k d = (case map_of kvs k of Some v \<Rightarrow> v | None \<Rightarrow> d)"

definition call_mcp_tool_body ::
  "'p pylib \<Rightarrow> 'p MCPBackend \<Rightarrow> string \<Rightarrow> (string \<times> pyval) list option \<Rightarrow> proc_outcome
     \<Rightarrow> 'p effect list \<times> (error + pyval)" where
  "call_mcp_tool_body L self method params oc =
     (if method = ''tools/list'' then MCPBackend_get_tools_list L self oc
      else if method = ''tools/get_schema'' then
        (let tool_name = (case params of
                            None \<Rightarrow> PNone
                          | Some kvs \<Rightarrow> if kvs \<noteq> [] then dict_get kvs ''name'' PNone else PNone)
         in ([], MCPBackend_get_tool_schema tool_name))
      else if method = ''tools/call'' then
        (let tool_name = (case params of
                            None \<Rightarrow> PNone
                          | Some kvs \<Rightarrow> if kvs \<noteq> [] then dict_get kvs ''name'' PNone else PNone);
             arguments = (case params of
                            None \<Rightarrow> PDict []
                          | Some kvs \<Rightarrow> if kvs \<noteq> [] then dict_get kvs ''arguments'' (PDict [])
                                        else PDict [])
         in MCPBackend_execute_tool L self tool_name arguments oc)
      else ([], Inl (ValueError (''Unknown method: '' @ method))))"

definition failure :: "error \<Rightarrow> pyval" where
  "failure e = PDict [(''success'', PBool False), (''error'', PStr (str_of_error e))]"

definition call_mcp_tool ::
  "'p pylib \<Rightarrow> 'p MCPBackend \<Rightarrow> string \<Rightarrow> (string \<times> pyval) list option \<Rightarrow> proc_outcome
     \<Rightarrow> 'p effect list \<times> (error + pyval)" where
  "call_mcp_tool L self method params oc =
     (case call_mcp_tool_body L self method params oc of
        (effs, Inl e) \<Rightarrow> (effs, Inr (failure e))
      | (effs, Inr result) \<Rightarrow> (effs, Inr result))"

section \<open>The HTTP routes\<close>

text \<open>
  A response is its status code and its JSON body. A handler that returns a dict answers
  200 with that dict; \<^verbatim>\<open>HTTPException(status_code, detail)\<close> answers with the body
  \<^verbatim>\<open>{"detail": detail}\<close>; \<^verbatim>\<open>JSONResponse(status_code, content)\<close> answers as written.
  Each handler runs against the module's \<open>backend\<close> (here \<open>self\<close>) and one behaviour of
  the process it may spawn.
\<close>

datatype response = Response (status_code: nat) (content: pyval)

definition HTTPException :: "nat \<Rightarrow> string \<Rightarrow> response" where
  "HTTPException code detail = Response code (PDict [(''detail'', PStr detail)])"

text \<open>\<^verbatim>\<open>obj.get(key, default)\<close> and \<^verbatim>\<open>len(obj)\<close>.\<close>

fun py_get :: "pyval \<Rightarrow> string \<Rightarrow> pyval \<Rightarrow> error + pyval" where
  "py_get (PDict kvs) k d = Inr (dict_get kvs k d)"
| "py_get v k d =
     Inl (AttributeError ([CHR 0x27] @ type_name v @ [CHR 0x27] @ '' object has no attribute ''
                            @ [CHR 0x27] @ ''get'' @ [CHR 0x27]))"

fun py_len :: "pyval \<Rightarrow> error + nat" where
  "py_len (PList xs) = Inr (length xs)"
| "py_len (PStr s) = Inr (length s)"
| "py_len (PDict kvs) = Inr (length (remdups (map fst kvs)))"
| "py_len v =
     Inl (TypeError (''object of type '' @ [CHR 0x27] @ type_name v @ [CHR 0x27]
                       @ '' has no len()''))"

text \<open>\<^verbatim>\<open>health_check\<close>, for \<^verbatim>\<open>GET /health\<close>.\<close>

definition health_check ::
  "'p pylib \<Rightarrow> 'p MCPBackend \<Rightarrow> proc_outcome \<Rightarrow> 'p effect list \<times> response" where
  "health_check L self oc =
     (case call_mcp_tool L self ''tools/list'' None oc of
        (effs, r) \<Rightarrow>
          (effs,
           case ebind r (\<lambda>result. ebind (py_get result ''tools'' (PList [])) py_len) of
             Inr n \<Rightarrow>
               Response 200 (PDict [(''status'', PStr ''healthy''),
                                    (''backend'', PStr ''accessible''),
                                    (''tools_available'', PInt (int n))])
           | Inl e \<Rightarrow>
               Response 503 (PDict [(''status'', PStr ''unhealthy''),
                                    (''error'', PStr (str_of_error e))])))"

text \<open>\<^verbatim>\<open>list_tools\<close>, for \<^verbatim>\<open>GET /tools/list\<close>.\<close>

definition list_tools ::
  "'p pylib \<Rightarrow> 'p MCPBackend \<Rightarrow> proc_outcome \<Rightarrow> 'p effect list \<times> response" where
  "list_tools L self oc =
     (case call_mcp_tool L self ''tools/list'' None oc of
        (effs, Inr result) \<Rightarrow> (effs, Response 200 result)
      | (effs, Inl e) \<Rightarrow> (effs, HTTPException 500 (str_of_error e)))"

text \<open>\<^verbatim>\<open>get_tool_schema\<close>, for \<^verbatim>\<open>GET /tools/schema/{tool_name}\<close>.\<close>

definition get_tool_schema ::
  "'p pylib \<Rightarrow> 'p MCPBackend \<Rightarrow> string \<Rightarrow> proc_outcome \<Rightarrow> 'p effect list \<times> response" where
  "get_tool_schema L self tool_name oc =
     (case call_mcp_tool L self ''tools/get_schema'' (Some [(''name'', PStr tool_name)]) oc of
        (effs, Inr result) \<Rightarrow> (effs, Response 200 result)
      | (effs, Inl e) \<Rightarrow> (effs, HTTPException 500 (str_of_error e)))"

text \<open>\<^verbatim>\<open>call_tool\<close>, for \<^verbatim>\<open>POST /tools/call/{tool_name}\<close>; \<open>arguments\<close> is the body.\<close>

definition call_tool ::
  "'p pylib \<Rightarrow> 'p MCPBackend \<Rightarrow> string \<Rightarrow> (string \<times> pyval) list \<Rightarrow> proc_outcome
     \<Rightarrow> 'p effect list \<times> response" where
  "call_tool L self tool_name arguments oc =
     (case call_mcp_tool L self ''tools/call''
             (Some [(''name'', PStr tool_name), (''arguments'', PDict arguments)]) oc of
        (effs, Inr result) \<Rightarrow> (effs, Response 200 result)
      | (effs, Inl e) \<Rightarrow> (effs, HTTPException 500 (str_of_error e)))"

text \<open>\<^verbatim>\<open>mcp_request\<close>, for \<^verbatim>\<open>POST /mcp/request\<close>, on the two fields of the request.\<close>

definition mcp_request ::
  "'p pylib \<Rightarrow> 'p MCPBackend \<Rightarrow> string \<Rightarrow> (string \<times> pyval) list option \<Rightarrow> proc_outcome
     \<Rightarrow> 'p effect list \<times> response" where
  "mcp_request L self method params oc =
     (case call_mcp_tool L self method params oc of
        (effs, Inr result) \<Rightarrow> (effs, Response 200 result)
      | (effs, Inl e) \<Rightarrow> (effs, HTTPException 500 (str_of_error e)))"

section \<open>A concrete library and backend for the examples\<close>

text \<open>
  Paths are strings here; the working directory of the process is \<open>/srv\<close>, and the one
  file that exists is \<open>/srv/mcp_demo\<close>. \<open>sample_loads\<close> knows the one JSON text the
  examples let the scraper parse, an object with an empty list of tools.
\<close>

definition sample_block :: string where
  "sample_block = ''{'' @ ''  '' @ [CHR 0x22] @ ''tools'' @ [CHR 0x22] @ '': []'' @ ''}''"

definition sample_loads :: "string \<Rightarrow> pyval option" where
  "sample_loads text = (if text = sample_block then Some (PDict [(''tools'', PList [])]) else None)"

definition sample_lib :: "string pylib" where
  "sample_lib = \<lparr>
     json_loads = sample_loads,
     Path = (\<lambda>s. s),
     path_resolve = (\<lambda>p. if startswith p (CHR ''/'') then p
                         else if p = ''.'' then ''/srv'' else ''/srv/'' @ p),
     path_is_absolute = (\<lambda>p. startswith p (CHR ''/'')),
     path_join = (\<lambda>d s. d @ ''/'' @ (if take 2 s = ''./'' then drop 2 s else s)),
     path_exists = (\<lambda>p. p = ''/srv/mcp_demo''),
     path_str = (\<lambda>p. p)\<rparr>"

definition sample_backend :: "string MCPBackend" where
  "sample_backend = \<lparr>config = default_config, executable_path = ''/srv/mcp_demo'',
                      working_directory = ''/srv'', timeout = PInt 30\<rparr>"

text \<open>\<^verbatim>\<open>int\<close> on the strings the examples use.\<close>

definition sample_int :: "string \<Rightarrow> error + int" where
  "sample_int s =
     (if s = ''9000'' then Inr 9000
      else Inl (ValueError (''invalid literal for int() with base 10: ''
                              @ [CHR 0x27] @ s @ [CHR 0x27])))"

text \<open>
  Output of a backend that prints its listing on one line, between two lines of log:
  the second line is the JSON object \<^verbatim>\<open>{"tools": []}\<close>.
\<close>

definition one_line_output :: string where
  "one_line_output =
     ''Starting demo\<newline>{'' @ [CHR 0x22] @ ''tools'' @ [CHR 0x22] @ '': []}\<newline>Done''"

text \<open>The same object printed over three lines, which concatenate to \<open>sample_block\<close>.\<close>

definition three_line_output :: string where
  "three_line_output =
     ''Starting demo\<newline>{\<newline>  '' @ [CHR 0x22] @ ''tools'' @ [CHR 0x22]
       @ '': []\<newline>}\<newline>Done''"

text \<open>
  A configuration file with both sections, an environment that sets all four variables,
  and a configuration file that has a \<open>server\<close> section only.
\<close>

definition sample_file :: "error + pyval" where
  "sample_file = Inr (PDict [
     (''server'', PDict [(''host'', PStr ''127.0.0.1''), (''port'', PInt 8000)]),
     (''mcp'', PDict [(''executable_path'', PStr ''./mcp_demo''), (''working_directory'', PStr ''.''),
                      (''timeout'', PInt 10)])])"

definition sample_environ :: "string \<rightharpoonup> string" where
  "sample_environ = [''MCP_SERVER_HOST'' \<mapsto> ''example.org'', ''MCP_SERVER_PORT'' \<mapsto> ''9000'',
                     ''MCP_EXECUTABLE_PATH'' \<mapsto> ''/opt/mcp/mcp_demo'',
                     ''MCP_WORKING_DIR'' \<mapsto> ''/opt/mcp'']"

definition partial_file :: "error + pyval" where
  "partial_file = Inr (PDict [(''server'', PDict [(''host'', PStr ''127.0.0.1'')])])"

text \<open>
  A configuration file whose executable path is absolute and exists, and whose working
  directory is left empty (\<^verbatim>\<open>working_directory:\<close> with no value, which YAML reads as
  \<^verbatim>\<open>None\<close>).
\<close>

definition null_workdir_config :: pyval where
  "null_workdir_config = PDict [
     (''mcp'', PDict [(''executable_path'', PStr ''/srv/mcp_demo''),
                      (''working_directory'', PNone)])]"

text \<open>
  An error stream that is the one byte \<^verbatim>\<open>0xff\<close>, which is no UTF-8, with the message of
  the \<open>UnicodeDecodeError\<close> that \<^verbatim>\<open>decode()\<close> raises on it.
\<close>

definition invalid_start_byte :: string where
  "invalid_start_byte =
     [CHR 0x27] @ ''utf-8'' @ [CHR 0x27]
       @ '' codec can'' @ [CHR 0x27] @ ''t decode byte 0xff in position 0: invalid start byte''"

definition undecodable_stderr :: captured where
  "undecodable_stderr = Undecodable invalid_start_byte"

section \<open>Auxiliary facts\<close>

lemmas invoker_defs = call_mcp_tool_def call_mcp_tool_body_def MCPBackend_get_tools_list_def
  MCPBackend_execute_tool_def MCPBackend_get_tool_schema_def failure_def ebind_def dict_get_def

lemmas text_defs = strip_def startswith_def endswith_def is_space_def

lemma split_one_line_output:
  "split (CHR 0x0A) one_line_output =
     [''Starting demo'', ''{'' @ [CHR 0x22] @ ''tools'' @ [CHR 0x22] @ '': []}'', ''Done'']"
  by (simp add: one_line_output_def)

lemma map_of_dict_set_same: "map_of (dict_set k v kvs) k = Some v"
  by (induction kvs) auto

lemma map_of_dict_set_other: "k' \<noteq> k \<Longrightarrow> map_of (dict_set k v kvs) k' = map_of kvs k'"
  by (induction kvs) auto

lemma set_nested_PDict:
  "map_of kvs sec = Some (PDict inner) \<Longrightarrow>
     set_nested (PDict kvs) sec key v =
       Inr (PDict (dict_set sec (PDict (dict_set key v inner)) kvs))"
  by (simp add: set_nested_def ebind_def)

lemma getitem_PDict_iff:
  "getitem c sec = Inr v \<longleftrightarrow> (\<exists>kvs. c = PDict kvs \<and> map_of kvs sec = Some v)"
  by (cases c) (auto split: option.splits)

lemma map_of_schemas_None:
  "s \<notin> set [''expr_predictor_obj_func'', ''expr_par_get_free_pars'', ''expr_predictor_train'',
              ''expr_predictor_predict'', ''expr_par_load'', ''expr_func_predict_expr'']
   \<Longrightarrow> map_of schemas s = None"
  by (simp add: schemas_def tool_schema_def)

lemma map_of_schemas_Some:
  "s \<in> set [''expr_predictor_obj_func'', ''expr_par_get_free_pars'', ''expr_predictor_train'',
              ''expr_predictor_predict'', ''expr_par_load'', ''expr_func_predict_expr'']
   \<Longrightarrow> \<exists>sch. map_of schemas s = Some sch"
  by (auto simp add: schemas_def tool_schema_def)

lemma schemas_dict: "map_of schemas s = Some sch \<Longrightarrow> \<exists>kvs. sch = PDict kvs"
  by (auto simp: schemas_def tool_schema_def split: if_splits)

text \<open>
  A line whose stripped text starts with a character starts with it once the leading
  blanks are dropped, whatever is appended.
\<close>

lemma strip_startswith:
  assumes "startswith (strip l) c"
  shows "startswith (dropWhile is_space (l @ r)) c"
proof -
  let ?ys = "dropWhile is_space l"
  from assms have ne: "?ys \<noteq> []"
    by (cases ?ys) (auto simp: strip_def startswith_def)
  then obtain x xs where ys: "?ys = x # xs" by (cases ?ys) auto
  then have nx: "\<not> is_space x" using hd_dropWhile [OF ne] by simp
  have "dropWhile is_space (rev xs @ [x]) = dropWhile is_space (rev xs) @ [x] \<or>
        dropWhile is_space (rev xs @ [x]) = [x]"
    using nx by (simp add: dropWhile_append)
  then have "rev (dropWhile is_space (rev ?ys)) = x # rev (dropWhile is_space (rev xs)) \<or>
             rev (dropWhile is_space (rev ?ys)) = [x]"
    by (auto simp: ys)
  then have "\<exists>zs. rev (dropWhile is_space (rev ?ys)) = x # zs"
    by blast
  with assms have "x = c" by (auto simp: strip_def startswith_def)
  moreover have "dropWhile is_space (l @ r) = ?ys @ r"
    using ne by (metis dropWhile_append1 dropWhile_eq_Nil_conv)
  ultimately show ?thesis by (simp add: ys startswith_def)
qed

text \<open>
  Where \<^verbatim>\<open>json.loads\<close> parses a text that opens with a brace to nothing but a dict, the
  loop of the scraper raises nothing and returns nothing but a dict: the block it
  accumulates opens with the line that set \<open>in_json\<close>.
\<close>

lemma scan_lines_dict:
  assumes obj: "\<And>s v. loads s = Some v \<Longrightarrow> startswith (dropWhile is_space s) (CHR ''{'')
                  \<Longrightarrow> \<exists>kvs. v = PDict kvs"
    and inv: "in_json \<Longrightarrow> json_lines \<noteq> [] \<and> startswith (strip (hd json_lines)) (CHR ''{'')"
  shows "\<exists>r. scan_lines loads request_type in_json json_lines lines = Inr r
             \<and> (\<forall>v. r = Some v \<longrightarrow> (\<exists>kvs. v = PDict kvs))"
  using inv
proof (induction lines arbitrary: in_json json_lines)
  case Nil
  show ?case by simp
next
  case (Cons line lines)
  show ?case
  proof (cases "startswith (strip line) (CHR ''{'')")
    case True
    have "\<exists>r. scan_lines loads request_type True [line] lines = Inr r
             \<and> (\<forall>v. r = Some v \<longrightarrow> (\<exists>kvs. v = PDict kvs))"
      by (rule Cons.IH) (simp add: True)
    with True show ?thesis by simp
  next
    case False
    note no_brace = this
    show ?thesis
    proof (cases in_json)
      case False
      with no_brace Cons.IH [of in_json json_lines] show ?thesis by simp
    next
      case True
      with Cons.prems obtain l0 ls where jl: "json_lines = l0 # ls"
        and l0: "startswith (strip l0) (CHR ''{'')"
        by (cases json_lines) auto
      have keep: "\<exists>r. scan_lines loads request_type in_json (json_lines @ [line]) lines = Inr r
             \<and> (\<forall>v. r = Some v \<longrightarrow> (\<exists>kvs. v = PDict kvs))"
        by (rule Cons.IH) (simp add: jl l0)
      have reset: "\<exists>r. scan_lines loads request_type False [] lines = Inr r
             \<and> (\<forall>v. r = Some v \<longrightarrow> (\<exists>kvs. v = PDict kvs))"
        by (rule Cons.IH) simp
      show ?thesis
      proof (cases "loads (concat (json_lines @ [line]))")
        case None
        with no_brace True keep show ?thesis by (simp add: is_complete_json_def)
      next
        case (Some v)
        have "startswith (dropWhile is_space (concat (json_lines @ [line]))) (CHR ''{'')"
          using strip_startswith [OF l0] by (simp add: jl)
        with obj Some obtain kvs where v: "v = PDict kvs" by blast
        show ?thesis
          using no_brace True keep reset Some
          by (auto simp: v is_complete_json_def Let_def split: bool.splits)
      qed
    qed
  qed
qed

lemma extract_json_from_output_dict:
  assumes "\<And>s v. loads s = Some v \<Longrightarrow> startswith (dropWhile is_space s) (CHR ''{'')
                  \<Longrightarrow> \<exists>kvs. v = PDict kvs"
  shows "\<exists>kvs. extract_json_from_output loads outp request_type = Inr (PDict kvs)"
proof -
  have "\<exists>r. scan_lines loads request_type False [] (split (CHR 0x0A) outp) = Inr r
             \<and> (\<forall>v. r = Some v \<longrightarrow> (\<exists>kvs. v = PDict kvs))"
    by (rule scan_lines_dict [where in_json = False and json_lines = "[]"])
       (use assms in blast, simp)
  then obtain r where r: "scan_lines loads request_type False [] (split (CHR 0x0A) outp) = Inr r"
    and d: "\<forall>v. r = Some v \<longrightarrow> (\<exists>kvs. v = PDict kvs)"
    by blast
  show ?thesis
    using d
    by (cases r) (auto simp: extract_json_from_output_def r fallback_tools_def parse_failure_def)
qed

lemma call_mcp_tool_dict:
  assumes "\<And>s v. json_loads L s = Some v \<Longrightarrow> startswith (dropWhile is_space s) (CHR ''{'')
                  \<Longrightarrow> \<exists>kvs. v = PDict kvs"
  shows "\<exists>kvs. snd (call_mcp_tool L self method params oc) = Inr (PDict kvs)"
proof -
  have ex: "\<And>outp rt r. extract_json_from_output (json_loads L) outp rt = Inr r
                \<Longrightarrow> \<exists>kvs. r = PDict kvs"
  proof -
    fix outp rt r
    assume a: "extract_json_from_output (json_loads L) outp rt = Inr r"
    have "\<exists>kvs. extract_json_from_output (json_loads L) outp rt = Inr (PDict kvs)"
      by (rule extract_json_from_output_dict) (use assms in blast)
    with a show "\<exists>kvs. r = PDict kvs" by auto
  qed
  have tl: "\<forall>r. snd (MCPBackend_get_tools_list L self oc) = Inr r \<longrightarrow> (\<exists>kvs. r = PDict kvs)"
    by (cases oc) (auto simp: MCPBackend_get_tools_list_def ebind_def dest: ex
          split: if_splits sum.splits)
  have et: "\<And>n a. \<forall>r. snd (MCPBackend_execute_tool L self n a oc) = Inr r
                \<longrightarrow> (\<exists>kvs. r = PDict kvs)"
    by (cases oc) (auto simp: MCPBackend_execute_tool_def ebind_def dest: ex
          split: if_splits sum.splits)
  have gs: "\<And>n. \<forall>r. MCPBackend_get_tool_schema n = Inr r \<longrightarrow> (\<exists>kvs. r = PDict kvs)"
    by (auto simp: MCPBackend_get_tool_schema_def dest: schemas_dict
          split: if_splits pyval.splits option.splits)
  have body: "\<forall>r. snd (call_mcp_tool_body L self method params oc) = Inr r
                \<longrightarrow> (\<exists>kvs. r = PDict kvs)"
    using tl et gs by (auto simp: call_mcp_tool_body_def Let_def)
  then show ?thesis
    by (auto simp: call_mcp_tool_def failure_def split: prod.splits sum.splits)
qed

text \<open>
  What the scraper does find: a block of at least two lines, opened by a line that starts
  with a brace and closed by the first later line that ends with one, no line after the
  first starting with a brace, whose text parses to an object with a \<open>tools\<close> key, after
  lines none of which starts with a brace. And with no line that starts with a brace the
  result is the fallback.
\<close>

lemma scan_lines_no_brace:
  assumes "\<forall>l \<in> set lines. \<not> startswith (strip l) (CHR ''{'')"
  shows "scan_lines loads request_type False [] lines = Inr None"
  using assms by (induction lines) auto

lemma scan_lines_skip:
  assumes "\<forall>l \<in> set pre. \<not> startswith (strip l) (CHR ''{'')"
  shows "scan_lines loads request_type False [] (pre @ lines)
           = scan_lines loads request_type False [] lines"
  using assms by (induction pre) auto

lemma scan_lines_accumulate:
  assumes "\<forall>l \<in> set mid. \<not> startswith (strip l) (CHR ''{'') \<and> \<not> endswith (strip l) (CHR ''}'')"
  shows "scan_lines loads request_type True json_lines (mid @ lines)
           = scan_lines loads request_type True (json_lines @ mid) lines"
  using assms by (induction mid arbitrary: json_lines) (auto simp: Let_def)

lemma scan_lines_block:
  assumes first: "startswith (strip l0) (CHR ''{'')"
    and mid: "\<forall>l \<in> set mid. \<not> startswith (strip l) (CHR ''{'') \<and> \<not> endswith (strip l) (CHR ''}'')"
    and last: "\<not> startswith (strip lz) (CHR ''{'')" "endswith (strip lz) (CHR ''}'')"
    and parse: "loads (concat (l0 # mid @ [lz])) = Some (PDict kvs)"
    and key: "''tools'' \<in> set (map fst kvs)"
  shows "scan_lines loads ''tools/list'' in_json json_lines (l0 # mid @ lz # lines)
           = Inr (Some (PDict kvs))"
proof -
  have "scan_lines loads ''tools/list'' in_json json_lines (l0 # mid @ lz # lines)
          = scan_lines loads ''tools/list'' True [l0] (mid @ lz # lines)"
    using first by simp
  also have "\<dots> = scan_lines loads ''tools/list'' True ([l0] @ mid) (lz # lines)"
    using mid by (rule scan_lines_accumulate)
  also have "\<dots> = Inr (Some (PDict kvs))"
    using last parse key by (simp add: is_complete_json_def)
  finally show ?thesis .
qed

lemma extract_multi_line_block:
  assumes "split (CHR 0x0A) outp = pre @ l0 # mid @ lz # post"
    and "\<forall>l \<in> set pre. \<not> startswith (strip l) (CHR ''{'')"
    and "startswith (strip l0) (CHR ''{'')"
    and "\<forall>l \<in> set mid. \<not> startswith (strip l) (CHR ''{'') \<and> \<not> endswith (strip l) (CHR ''}'')"
    and "\<not> startswith (strip lz) (CHR ''{'')" "endswith (strip lz) (CHR ''}'')"
    and "loads (concat (l0 # mid @ [lz])) = Some (PDict kvs)"
    and "''tools'' \<in> set (map fst kvs)"
  shows "extract_json_from_output loads outp ''tools/list'' = Inr (PDict kvs)"
proof -
  have "scan_lines loads ''tools/list'' False [] (pre @ l0 # mid @ lz # post)
          = scan_lines loads ''tools/list'' False [] (l0 # mid @ lz # post)"
    using assms(2) by (rule scan_lines_skip)
  also have "\<dots> = Inr (Some (PDict kvs))"
    using assms(3-8) by (rule scan_lines_block)
  finally show ?thesis
    by (simp add: extract_json_from_output_def assms(1))
qed

lemma extract_no_brace:
  assumes "\<forall>l \<in> set (split (CHR 0x0A) outp). \<not> startswith (strip l) (CHR ''{'')"
  shows "extract_json_from_output loads outp request_type =
           Inr (if request_type = ''tools/list'' then fallback_tools else parse_failure)"
  using assms by (simp add: extract_json_from_output_def scan_lines_no_brace)

lemma three_line_object_found:
  "extract_json_from_output sample_loads three_line_output ''tools/list''
     = Inr (PDict [(''tools'', PList [])])"
proof -
  have "split (CHR 0x0A) three_line_output =
          [''Starting demo''] @ ''{'' # [''  '' @ [CHR 0x22] @ ''tools'' @ [CHR 0x22] @ '': []'']
            @ ''}'' # [''Done'']"
    by (simp add: three_line_output_def)
  then show ?thesis
    by (rule extract_multi_line_block)
       (simp_all add: text_defs sample_loads_def sample_block_def)
qed

text \<open>
  The health check on a listing that succeeds: it counts the tools of the result. With
  return code 0 and output in which no line starts with a brace, that is the six tools
  of the fallback.
\<close>

lemma health_check_counts_tools:
  assumes "snd (call_mcp_tool L self ''tools/list'' None oc) = Inr (PDict kvs)"
    and "map_of kvs ''tools'' = Some (PList tools)"
  shows "snd (health_check L self oc) =
           Response 200 (PDict [(''status'', PStr ''healthy''), (''backend'', PStr ''accessible''),
                                (''tools_available'', PInt (int (length tools)))])"
  using assms by (auto simp: health_check_def ebind_def dict_get_def split: prod.splits)

lemma health_check_fallback_six:
  assumes "\<forall>l \<in> set (split (CHR 0x0A) outp). \<not> startswith (strip l) (CHR ''{'')"
  shows "snd (health_check L self (Completed 0 (Text outp) err)) =
           Response 200 (PDict [(''status'', PStr ''healthy''), (''backend'', PStr ''accessible''),
                                (''tools_available'', PInt 6)])"
  using extract_no_brace [OF assms, of "json_loads L" "''tools/list''"]
  by (simp add: health_check_def invoker_defs fallback_tools_def)

section \<open>The call route and unknown tool names\<close>

text \<open>
  C1, as stated, fails: \<^verbatim>\<open>POST /tools/call/unknown_tool_xyz\<close> with body \<^verbatim>\<open>{}\<close>, the
  backend printing a line of text and ending with return code 0, is answered with
  status 200 and the scraper's generic failure payload, not with status 500 and an
  ``Unknown tool'' message.
\<close>

theorem call_tool_unknown_name_not_500:
  "status_code (snd (call_tool sample_lib sample_backend ''unknown_tool_xyz'' []
       (Completed 0 (Text ''demo output'') (Text [])))) \<noteq> 500
   \<and> content (snd (call_tool sample_lib sample_backend ''unknown_tool_xyz'' []
       (Completed 0 (Text ''demo output'') (Text [])))) =
     PDict [(''success'', PBool False), (''error'', PStr ''Could not parse backend response'')]"
  by (simp add: call_tool_def invoker_defs extract_json_from_output_def text_defs
        sample_lib_def parse_failure_def)

text \<open>
  C1, amended: the call route does not check the tool name against the schema table.
  For every name that is not empty, known or not, and every body, what the route does
  and answers is what it does and answers for any other such name and body, the backend
  behaving the same.
\<close>

theorem call_tool_ignores_name:
  "tool_name \<noteq> [] \<Longrightarrow> tool_name' \<noteq> [] \<Longrightarrow>
     call_tool L self tool_name arguments oc = call_tool L self tool_name' arguments' oc"
  by (simp add: call_tool_def invoker_defs)

theorem call_tool_ignores_name_witness:
  "''unknown_tool_xyz'' \<noteq> [] \<and> ''expr_par_load'' \<noteq> []
   \<and> call_tool sample_lib sample_backend ''unknown_tool_xyz'' [] TimedOut =
     call_tool sample_lib sample_backend ''expr_par_load'' [(''filename'', PStr ''par.txt'')] TimedOut"
  using call_tool_ignores_name [of "''unknown_tool_xyz''" "''expr_par_load''" sample_lib
      sample_backend "[]" TimedOut "[(''filename'', PStr ''par.txt'')]"]
  by simp

section \<open>The scraper on a one-line object\<close>

text \<open>
  C2 at the input \<open>one_line_output\<close>, whatever \<^verbatim>\<open>json.loads\<close> does: the text holds one
  well-formed JSON object with a \<open>tools\<close> key on a line of its own among lines that are
  no JSON, and the scraper, asked for a listing, returns the fixed list of six tools
  instead of that object. A line that opens a block is never tested for closing it.
\<close>

theorem one_line_object_gives_fallback:
  "extract_json_from_output loads one_line_output ''tools/list'' = Inr fallback_tools
   \<and> extract_json_from_output loads one_line_output ''tools/list''
         \<noteq> Inr (PDict [(''tools'', PList [])])"
  by (simp add: extract_json_from_output_def split_one_line_output text_defs fallback_tools_def)

section \<open>The health check\<close>

text \<open>
  C3 at a failing backend: when the wait times out, and when the process ends with
  return code 1 and \<open>boom\<close> on its error stream, \<^verbatim>\<open>GET /health\<close> is answered with
  status 200, \<open>healthy\<close>, \<open>accessible\<close> and no tools, not with status 503.
\<close>

theorem health_check_failing_backend:
  "snd (health_check L self TimedOut) =
     Response 200 (PDict [(''status'', PStr ''healthy''), (''backend'', PStr ''accessible''),
                          (''tools_available'', PInt 0)])
   \<and> snd (health_check L self (Completed 1 (Text []) (Text ''boom''))) =
     Response 200 (PDict [(''status'', PStr ''healthy''), (''backend'', PStr ''accessible''),
                          (''tools_available'', PInt 0)])"
  by (simp add: health_check_def invoker_defs)

section \<open>One process per operation\<close>

text \<open>
  C4, as stated, fails: describing a tool (the schema lookup for \<open>expr_par_load\<close>)
  spawns no process and does nothing else to the outside world.
\<close>

theorem schema_lookup_spawns_nothing:
  "fst (call_mcp_tool sample_lib sample_backend ''tools/get_schema''
          (Some [(''name'', PStr ''expr_par_load'')]) (Completed 0 (Text []) (Text []))) = []"
  by (simp add: invoker_defs split: prod.splits sum.splits)

text \<open>
  C4, amended: listing the tools, and executing a tool whose name is not empty, each
  spawn the executable once, with no arguments, in the working directory, with both
  output streams captured, and wait for it under the configured timeout (killing it when
  the wait times out); what is done is the same for both and for every tool name and
  arguments. Describing a tool reads the static table and spawns nothing. The timeout
  is the one the configuration gives under \<open>mcp.timeout\<close>, 30 by default.
\<close>

theorem invocation_per_operation:
  "fst (MCPBackend_get_tools_list L self oc) =
     Spawn (path_str L (executable_path self)) [] (working_directory self) True True
       # (case oc of
            SpawnError e \<Rightarrow> []
          | WaitError e \<Rightarrow> [WaitFor (timeout self)]
          | TimedOut \<Rightarrow> [WaitFor (timeout self), Kill]
          | Completed returncode out err \<Rightarrow> [WaitFor (timeout self)])
   \<and> (truthy tool_name \<longrightarrow>
        fst (MCPBackend_execute_tool L self tool_name arguments oc) =
        fst (MCPBackend_get_tools_list L self oc))
   \<and> fst (call_mcp_tool L self ''tools/get_schema'' params oc) = []
   \<and> (MCPBackend_init L cfg = Inr self \<longrightarrow>
        timeout self = MCPConfig_get cfg ''mcp.timeout'' (PInt 30))"
  by (auto simp: invoker_defs MCPBackend_init_def Let_def
        split: proc_outcome.splits sum.splits prod.splits pyval.splits if_splits)

theorem invocation_per_operation_witness:
  "truthy (PStr ''expr_par_load'')
   \<and> MCPBackend_init sample_lib default_config = Inr sample_backend
   \<and> fst (MCPBackend_execute_tool sample_lib sample_backend (PStr ''expr_par_load'')
            (PDict [(''filename'', PStr ''par.txt'')]) TimedOut) =
       [Spawn ''/srv/mcp_demo'' [] ''/srv'' True True, WaitFor (PInt 30), Kill]
   \<and> timeout sample_backend = MCPConfig_get default_config ''mcp.timeout'' (PInt 30)"
proof -
  have i: "MCPBackend_init sample_lib default_config = Inr sample_backend"
    by (simp add: MCPBackend_init_def MCPConfig_get_def default_config_def sample_lib_def
          sample_backend_def startswith_def Let_def)
  have t: "truthy (PStr ''expr_par_load'')" by simp
  show ?thesis
    using invocation_per_operation [of sample_lib sample_backend TimedOut
        "PStr ''expr_par_load''" "PDict [(''filename'', PStr ''par.txt'')]" None default_config] i t
    by (simp add: sample_lib_def sample_backend_def)
qed

section \<open>Construction of the backend invoker\<close>

text \<open>
  C5, as stated, fails: the configured executable path is absolute and exists, the
  configured working directory is \<^verbatim>\<open>None\<close>, and construction raises, since the working
  directory is made a path and resolved before the executable is looked at.
\<close>

theorem MCPBackend_init_existing_path_raises:
  "MCPConfig_get null_workdir_config ''mcp.executable_path'' (PStr ''./mcp_demo'')
     = PStr ''/srv/mcp_demo''
   \<and> path_is_absolute sample_lib (Path sample_lib ''/srv/mcp_demo'')
   \<and> path_exists sample_lib (Path sample_lib ''/srv/mcp_demo'')
   \<and> MCPBackend_init sample_lib null_workdir_config =
       Inl (TypeError ''expected str, bytes or os.PathLike object, not NoneType'')"
  by (simp add: MCPBackend_init_def MCPConfig_get_def null_workdir_config_def sample_lib_def
        startswith_def path_type_error_def)

text \<open>
  C5, amended: with a configuration whose executable path and working directory are
  strings, the executable path is resolved at construction, an absolute path as it is and
  a relative one joined to the resolved working directory, and construction raises if and
  only if that path does not exist: then with \<open>MCP executable not found\<close>, and otherwise
  it gives an invoker holding that path, whatever the file holds.
\<close>

theorem MCPBackend_init_fails_iff_missing:
  assumes "MCPConfig_get cfg ''mcp.executable_path'' (PStr ''./mcp_demo'') = PStr exe"
    and "MCPConfig_get cfg ''mcp.working_directory'' (PStr ''.'') = PStr wd"
  shows "(let p = (if path_is_absolute L (Path L exe) then Path L exe
                   else path_join L (path_resolve L (Path L wd)) exe)
          in ((\<exists>e. MCPBackend_init L cfg = Inl e) \<longleftrightarrow> \<not> path_exists L p)
             \<and> (\<not> path_exists L p \<longrightarrow>
                  MCPBackend_init L cfg =
                    Inl (RuntimeError (''MCP executable not found: '' @ path_str L p)))
             \<and> (path_exists L p \<longrightarrow>
                  (\<exists>self. MCPBackend_init L cfg = Inr self \<and> executable_path self = p
                          \<and> working_directory self = path_resolve L (Path L wd))))"
  using assms by (simp add: MCPBackend_init_def Let_def)

theorem MCPBackend_init_fails_iff_missing_witness:
  "MCPConfig_get default_config ''mcp.executable_path'' (PStr ''./mcp_demo'') = PStr ''./mcp_demo''
   \<and> MCPConfig_get default_config ''mcp.working_directory'' (PStr ''.'') = PStr ''.''
   \<and> path_exists sample_lib ''/srv/mcp_demo''
   \<and> (\<exists>self. MCPBackend_init sample_lib default_config = Inr self
              \<and> executable_path self = ''/srv/mcp_demo'')"
proof -
  have a: "MCPConfig_get default_config ''mcp.executable_path'' (PStr ''./mcp_demo'')
             = PStr ''./mcp_demo''"
    by (simp add: MCPConfig_get_def default_config_def)
  have b: "MCPConfig_get default_config ''mcp.working_directory'' (PStr ''.'') = PStr ''.''"
    by (simp add: MCPConfig_get_def default_config_def)
  have c: "path_exists sample_lib ''/srv/mcp_demo''" by (simp add: sample_lib_def)
  have "\<exists>self. MCPBackend_init sample_lib default_config = Inr self
              \<and> executable_path self = ''/srv/mcp_demo''"
    using MCPBackend_init_fails_iff_missing [OF a b, of sample_lib]
    by (auto simp: sample_lib_def startswith_def Let_def)
  with a b c show ?thesis by blast
qed

section \<open>Loading the configuration\<close>

text \<open>
  C6: when reading the file raises, for a missing file as for one that does not parse,
  the loader returns the default configuration as it is (host 0.0.0.0, port 8080, debug
  off, executable ./mcp_demo, working directory ., timeout 30, logging INFO, discovery
  on) and raises nothing; with no override in the environment, construction of the
  configuration succeeds with exactly that. A file that parses is taken as it is.
\<close>

theorem load_config_failure_gives_defaults:
  "load_config (Inl e) = default_config
   \<and> load_config (Inr v) = v
   \<and> MCPConfig_init int_of_str (Inl e) Map.empty = Inr default_config
   \<and> MCPConfig_get default_config ''server.host'' d = PStr ''0.0.0.0''
   \<and> MCPConfig_get default_config ''server.port'' d = PInt 8080
   \<and> MCPConfig_get default_config ''server.debug'' d = PBool False
   \<and> MCPConfig_get default_config ''mcp.executable_path'' d = PStr ''./mcp_demo''
   \<and> MCPConfig_get default_config ''mcp.working_directory'' d = PStr ''.''
   \<and> MCPConfig_get default_config ''mcp.timeout'' d = PInt 30
   \<and> MCPConfig_get default_config ''logging.level'' d = PStr ''INFO''
   \<and> MCPConfig_get default_config ''tools.discovery_enabled'' d = PBool True"
proof -
  have l: "load_config (Inl e) = default_config" by (cases e) simp_all
  have i: "MCPConfig_init int_of_str (Inl e) Map.empty = Inr default_config"
    by (simp add: MCPConfig_init_def l apply_env_overrides_def ebind_def)
  show ?thesis
    by (simp add: l i) (simp add: MCPConfig_get_def default_config_def)
qed

section \<open>Overrides from the environment\<close>

text \<open>
  C7, as stated, fails: the file gives \<open>server.host\<close> and has no \<open>mcp\<close> section, the
  environment sets the host and the working directory, and construction raises
  \<open>KeyError\<close> for \<open>mcp\<close>, so that no merged configuration holds the host.
\<close>

theorem env_override_without_section_raises:
  "MCPConfig_init sample_int partial_file
     [''MCP_SERVER_HOST'' \<mapsto> ''example.org'', ''MCP_WORKING_DIR'' \<mapsto> ''/opt/mcp'']
   = Inl (KeyError ([CHR 0x27] @ ''mcp'' @ [CHR 0x27]))"
  by (simp add: MCPConfig_init_def partial_file_def apply_env_overrides_def ebind_def
        set_nested_def)

text \<open>
  C7, amended: when the loaded configuration has, as a mapping, the section (\<open>server\<close>,
  \<open>mcp\<close>) of every variable that is set, and the port variable, if set, holds what
  \<^verbatim>\<open>int\<close> accepts, construction succeeds and, for each of the four variables that is
  set, the merged configuration holds its value under its key (the port as that
  integer), whatever the file gave there.
\<close>

theorem env_overrides_take_precedence:
  assumes S: "environ ''MCP_SERVER_HOST'' \<noteq> None \<or> environ ''MCP_SERVER_PORT'' \<noteq> None \<Longrightarrow>
               \<exists>sv. getitem (load_config file) ''server'' = Inr (PDict sv)"
    and M: "environ ''MCP_EXECUTABLE_PATH'' \<noteq> None \<or> environ ''MCP_WORKING_DIR'' \<noteq> None \<Longrightarrow>
               \<exists>mc. getitem (load_config file) ''mcp'' = Inr (PDict mc)"
    and P: "\<And>p. environ ''MCP_SERVER_PORT'' = Some p \<Longrightarrow> \<exists>n. int_of_str p = Inr n"
  shows "\<exists>cfg. MCPConfig_init int_of_str file environ = Inr cfg
           \<and> (\<forall>h. environ ''MCP_SERVER_HOST'' = Some h \<longrightarrow>
                  MCPConfig_get cfg ''server.host'' d = PStr h)
           \<and> (\<forall>p n. environ ''MCP_SERVER_PORT'' = Some p \<longrightarrow> int_of_str p = Inr n \<longrightarrow>
                  MCPConfig_get cfg ''server.port'' d = PInt n)
           \<and> (\<forall>x. environ ''MCP_EXECUTABLE_PATH'' = Some x \<longrightarrow>
                  MCPConfig_get cfg ''mcp.executable_path'' d = PStr x)
           \<and> (\<forall>w. environ ''MCP_WORKING_DIR'' = Some w \<longrightarrow>
                  MCPConfig_get cfg ''mcp.working_directory'' d = PStr w)"
proof (cases "environ ''MCP_SERVER_HOST''"; cases "environ ''MCP_SERVER_PORT''";
       cases "environ ''MCP_EXECUTABLE_PATH''"; cases "environ ''MCP_WORKING_DIR''")
qed (use S M P in \<open>auto simp: MCPConfig_init_def apply_env_overrides_def ebind_def
       MCPConfig_get_def getitem_PDict_iff set_nested_PDict map_of_dict_set_same
       map_of_dict_set_other\<close>)

theorem env_overrides_take_precedence_witness:
  "\<exists>cfg. MCPConfig_init sample_int sample_file sample_environ = Inr cfg
      \<and> MCPConfig_get cfg ''server.host'' PNone = PStr ''example.org''
      \<and> MCPConfig_get cfg ''server.port'' PNone = PInt 9000
      \<and> MCPConfig_get cfg ''mcp.executable_path'' PNone = PStr ''/opt/mcp/mcp_demo''
      \<and> MCPConfig_get cfg ''mcp.working_directory'' PNone = PStr ''/opt/mcp''"
proof -
  have s: "\<exists>sv. getitem (load_config sample_file) ''server'' = Inr (PDict sv)"
    by (simp add: sample_file_def)
  have m: "\<exists>mc. getitem (load_config sample_file) ''mcp'' = Inr (PDict mc)"
    by (simp add: sample_file_def)
  have p: "\<And>p. sample_environ ''MCP_SERVER_PORT'' = Some p \<Longrightarrow> \<exists>n. sample_int p = Inr n"
    by (auto simp: sample_environ_def sample_int_def)
  have i: "sample_int ''9000'' = Inr 9000" by (simp add: sample_int_def)
  from env_overrides_take_precedence [of sample_environ sample_file sample_int PNone, OF s m p]
  show ?thesis
    using i by (simp add: sample_environ_def)
qed

section \<open>The schema table\<close>

text \<open>
  C8, as stated, fails: the lookup of the empty name fails with
  \<open>Tool name is required\<close>, not with an \<open>Unknown tool\<close> message.
\<close>

theorem schema_lookup_empty_name:
  "MCPBackend_get_tool_schema (PStr '''') = Inl (ValueError ''Tool name is required'')
   \<and> MCPBackend_get_tool_schema (PStr '''') \<noteq> Inl (ValueError (''Unknown tool: '' @ ''''))"
  by (simp add: MCPBackend_get_tool_schema_def)

text \<open>
  C8, amended: the schema lookup of a string succeeds exactly for the six known tool
  names; for every other name it fails, with \<open>Unknown tool\<close> and the name when the name
  is not empty and with \<open>Tool name is required\<close> when it is; and the schema of
  \<open>expr_par_load\<close> requires exactly \<open>filename\<close>, \<open>coopMat\<close> and \<open>repIndicators\<close>.
\<close>

theorem schema_lookup_known_names:
  "((\<exists>sch. MCPBackend_get_tool_schema (PStr s) = Inr sch) \<longleftrightarrow>
      s \<in> set [''expr_predictor_obj_func'', ''expr_par_get_free_pars'', ''expr_predictor_train'',
                ''expr_predictor_predict'', ''expr_par_load'', ''expr_func_predict_expr''])
   \<and> (s \<notin> set [''expr_predictor_obj_func'', ''expr_par_get_free_pars'', ''expr_predictor_train'',
                ''expr_predictor_predict'', ''expr_par_load'', ''expr_func_predict_expr''] \<longrightarrow>
        MCPBackend_get_tool_schema (PStr s) =
          Inl (ValueError (if s = [] then ''Tool name is required'' else ''Unknown tool: '' @ s)))
   \<and> ebind (MCPBackend_get_tool_schema (PStr ''expr_par_load''))
        (\<lambda>sch. ebind (getitem sch ''inputSchema'') (\<lambda>i. getitem i ''required'')) =
      Inr (PList [PStr ''filename'', PStr ''coopMat'', PStr ''repIndicators''])"
proof (intro conjI impI)
  show "(\<exists>sch. MCPBackend_get_tool_schema (PStr s) = Inr sch) \<longleftrightarrow>
      s \<in> set [''expr_predictor_obj_func'', ''expr_par_get_free_pars'', ''expr_predictor_train'',
                ''expr_predictor_predict'', ''expr_par_load'', ''expr_func_predict_expr'']"
    (is "?found \<longleftrightarrow> ?known")
  proof
    assume ?found
    show ?known
    proof (rule ccontr)
      assume "\<not> ?known"
      then have "map_of schemas s = None" by (rule map_of_schemas_None)
      with \<open>?found\<close> show False
        by (simp add: MCPBackend_get_tool_schema_def split: if_splits)
    qed
  next
    assume ?known
    then obtain sch where "map_of schemas s = Some sch"
      using map_of_schemas_Some by blast
    moreover from \<open>?known\<close> have "s \<noteq> []" by auto
    ultimately show ?found by (simp add: MCPBackend_get_tool_schema_def)
  qed
next
  assume "s \<notin> set [''expr_predictor_obj_func'', ''expr_par_get_free_pars'',
                     ''expr_predictor_train'', ''expr_predictor_predict'', ''expr_par_load'',
                     ''expr_func_predict_expr'']"
  then have "map_of schemas s = None" by (rule map_of_schemas_None)
  then show "MCPBackend_get_tool_schema (PStr s) =
          Inl (ValueError (if s = [] then ''Tool name is required'' else ''Unknown tool: '' @ s))"
    by (simp add: MCPBackend_get_tool_schema_def)
next
  show "ebind (MCPBackend_get_tool_schema (PStr ''expr_par_load''))
        (\<lambda>sch. ebind (getitem sch ''inputSchema'') (\<lambda>i. getitem i ''required'')) =
      Inr (PList [PStr ''filename'', PStr ''coopMat'', PStr ''repIndicators''])"
    by (simp add: MCPBackend_get_tool_schema_def schemas_def tool_schema_def ebind_def)
qed

theorem schema_lookup_known_names_witness:
  "''unknown_tool_xyz'' \<notin> set [''expr_predictor_obj_func'', ''expr_par_get_free_pars'',
        ''expr_predictor_train'', ''expr_predictor_predict'', ''expr_par_load'',
        ''expr_func_predict_expr'']
   \<and> MCPBackend_get_tool_schema (PStr ''unknown_tool_xyz'') =
       Inl (ValueError ''Unknown tool: unknown_tool_xyz'')"
  using schema_lookup_known_names [of "''unknown_tool_xyz''"]
  by simp

section \<open>Timeout and failing exit\<close>

text \<open>
  C9, as stated, fails: the process ends with return code 1 and an error stream that is
  no UTF-8, and what is raised, in listing as in executing, is the \<open>UnicodeDecodeError\<close>
  of decoding that stream, not a failure that carries it.
\<close>

theorem failing_exit_undecodable_stderr:
  "snd (MCPBackend_get_tools_list sample_lib sample_backend
          (Completed 1 (Text []) undecodable_stderr)) =
     Inl (UnicodeDecodeError invalid_start_byte)
   \<and> snd (MCPBackend_execute_tool sample_lib sample_backend (PStr ''expr_par_load'') (PDict [])
            (Completed 1 (Text []) undecodable_stderr)) =
       Inl (UnicodeDecodeError invalid_start_byte)"
  by (simp add: invoker_defs undecodable_stderr_def)

text \<open>
  C9, amended: in both operations that spawn the process (listing, and executing a tool
  whose name is not empty), when the wait times out the process is killed and
  \<open>MCP backend timeout\<close> is raised; when the process ends with a return code other than 0
  a failure is raised, which carries the text of the error stream when that stream
  decodes, or \<open>Unknown error\<close> when it is empty.
\<close>

theorem timeout_and_failing_exit:
  "fst (MCPBackend_get_tools_list L self TimedOut) =
     [Spawn (path_str L (executable_path self)) [] (working_directory self) True True,
      WaitFor (timeout self), Kill]
   \<and> snd (MCPBackend_get_tools_list L self TimedOut) = Inl (RuntimeError ''MCP backend timeout'')
   \<and> (returncode \<noteq> 0 \<longrightarrow>
        snd (MCPBackend_get_tools_list L self (Completed returncode out (Text err))) =
          Inl (RuntimeError (''MCP backend failed: ''
                               @ (if err = [] then ''Unknown error'' else err)))
        \<and> (\<exists>e. snd (MCPBackend_get_tools_list L self (Completed returncode out stderr)) = Inl e))
   \<and> (truthy tool_name \<longrightarrow>
        fst (MCPBackend_execute_tool L self tool_name arguments TimedOut) =
          [Spawn (path_str L (executable_path self)) [] (working_directory self) True True,
           WaitFor (timeout self), Kill]
        \<and> snd (MCPBackend_execute_tool L self tool_name arguments TimedOut) =
            Inl (RuntimeError ''MCP backend timeout'')
        \<and> (returncode \<noteq> 0 \<longrightarrow>
             snd (MCPBackend_execute_tool L self tool_name arguments
                    (Completed returncode out (Text err))) =
               Inl (RuntimeError (''MCP backend failed: ''
                                    @ (if err = [] then ''Unknown error'' else err)))
             \<and> (\<exists>e. snd (MCPBackend_execute_tool L self tool_name arguments
                           (Completed returncode out stderr)) = Inl e)))"
  by (cases stderr) (simp_all add: invoker_defs)

theorem timeout_and_failing_exit_witness:
  "(1::int) \<noteq> 0 \<and> truthy (PStr ''expr_par_load'')
   \<and> snd (MCPBackend_get_tools_list sample_lib sample_backend
            (Completed 1 (Text ''partial'') (Text ''boom''))) =
       Inl (RuntimeError ''MCP backend failed: boom'')
   \<and> snd (MCPBackend_execute_tool sample_lib sample_backend (PStr ''expr_par_load'') (PDict [])
            (Completed 1 (Text ''partial'') (Text []))) =
       Inl (RuntimeError ''MCP backend failed: Unknown error'')
   \<and> fst (MCPBackend_execute_tool sample_lib sample_backend (PStr ''expr_par_load'') (PDict [])
            TimedOut) =
       [Spawn ''/srv/mcp_demo'' [] ''/srv'' True True, WaitFor (PInt 30), Kill]"
  using timeout_and_failing_exit [of sample_lib sample_backend 1 "Text ''partial''" "''boom''"
          "Text ''boom''" "PStr ''expr_par_load''" "PDict []"]
    timeout_and_failing_exit [of sample_lib sample_backend 1 "Text ''partial''" "[]"
          "Text []" "PStr ''expr_par_load''" "PDict []"]
  by (simp add: sample_lib_def sample_backend_def)

section \<open>The invoker never raises\<close>

text \<open>
  C10: for every method, parameters and behaviour of the process, \<open>call_mcp_tool\<close>
  returns and raises nothing: what its body returns, or, when its body raises \<open>e\<close>, the
  dict with \<open>success\<close> false and the text of \<open>e\<close> under \<open>error\<close>. Where
  \<^verbatim>\<open>json.loads\<close> parses a text that opens with a brace to nothing but a dict, what is
  returned is a dict. So the four routes that hand the result on answer with status 200,
  never with 500: the generic route with exactly that result as its body.
\<close>

theorem call_mcp_tool_never_raises:
  "(let returned = (\<lambda>m p. case snd (call_mcp_tool_body L self m p oc) of
                             Inl e \<Rightarrow> PDict [(''success'', PBool False),
                                              (''error'', PStr (str_of_error e))]
                           | Inr r \<Rightarrow> r)
    in snd (call_mcp_tool L self method params oc) = Inr (returned method params)
       \<and> fst (call_mcp_tool L self method params oc) =
           fst (call_mcp_tool_body L self method params oc)
       \<and> ((\<forall>s v. json_loads L s = Some v \<longrightarrow> startswith (dropWhile is_space s) (CHR ''{'')
                   \<longrightarrow> (\<exists>kvs. v = PDict kvs))
            \<longrightarrow> (\<exists>kvs. snd (call_mcp_tool L self method params oc) = Inr (PDict kvs)))
       \<and> snd (mcp_request L self method params oc) = Response 200 (returned method params)
       \<and> snd (list_tools L self oc) = Response 200 (returned ''tools/list'' None)
       \<and> snd (get_tool_schema L self tool_name oc) =
           Response 200 (returned ''tools/get_schema'' (Some [(''name'', PStr tool_name)]))
       \<and> snd (call_tool L self tool_name arguments oc) =
           Response 200 (returned ''tools/call''
                           (Some [(''name'', PStr tool_name), (''arguments'', PDict arguments)])))"
proof -
  have d: "(\<forall>s v. json_loads L s = Some v \<longrightarrow> startswith (dropWhile is_space s) (CHR ''{'')
               \<longrightarrow> (\<exists>kvs. v = PDict kvs))
        \<longrightarrow> (\<exists>kvs. snd (call_mcp_tool L self method params oc) = Inr (PDict kvs))"
    using call_mcp_tool_dict [of L self "method" "params" oc] by blast
  have r: "\<And>m p. call_mcp_tool L self m p oc =
             (fst (call_mcp_tool_body L self m p oc),
              Inr (case snd (call_mcp_tool_body L self m p oc) of
                     Inl e \<Rightarrow> PDict [(''success'', PBool False),
                                      (''error'', PStr (str_of_error e))]
                   | Inr r \<Rightarrow> r))"
    by (auto simp: call_mcp_tool_def failure_def split: prod.splits sum.splits)
  show ?thesis
    unfolding Let_def
    by (intro conjI d) 
       (simp_all add: mcp_request_def list_tools_def get_tool_schema_def call_tool_def r)
qed

theorem call_mcp_tool_never_raises_witness:
  "call_mcp_tool sample_lib sample_backend ''tools/restart'' None TimedOut =
     ([], Inr (PDict [(''success'', PBool False),
                      (''error'', PStr ''Unknown method: tools/restart'')]))
   \<and> (\<exists>kvs. snd (call_mcp_tool sample_lib sample_backend ''tools/restart'' None TimedOut)
               = Inr (PDict kvs))
   \<and> snd (mcp_request sample_lib sample_backend ''tools/restart'' None TimedOut) =
       Response 200 (PDict [(''success'', PBool False),
                            (''error'', PStr ''Unknown method: tools/restart'')])"
proof -
  have h: "\<forall>s v. json_loads sample_lib s = Some v \<longrightarrow>
             startswith (dropWhile is_space s) (CHR ''{'') \<longrightarrow> (\<exists>kvs. v = PDict kvs)"
    by (simp add: sample_lib_def sample_loads_def)
  have b: "call_mcp_tool_body sample_lib sample_backend ''tools/restart'' None TimedOut =
             ([], Inl (ValueError ''Unknown method: tools/restart''))"
    by (simp add: call_mcp_tool_body_def)
  from call_mcp_tool_never_raises [of sample_lib sample_backend TimedOut "''tools/restart''" None]
  show ?thesis
    using h b by (auto simp: prod_eq_iff Let_def)
qed

end
